theory Spec2Isabelle
  imports Main
begin

section \<open>types.ts: schema descriptions and the derived table types\<close>

text \<open>
  The table types of \<^verbatim>\<open>types.ts\<close> are type-level programs: \<^verbatim>\<open>keyof\<close>, intersection with
  \<^verbatim>\<open>string\<close> and indexed access, applied to the schema description the consumer supplies.
  They are embedded as functions on descriptions of TypeScript types. An object type is
  a partial map from property keys to types (an index signature such as
  \<^verbatim>\<open>Record<string, X>\<close> maps every string and number key); every other type is opaque.
  An indexed access the compiler would reject yields \<open>None\<close>.
\<close>

datatype key = StrKey string | NumKey int | SymKey string

datatype ty = TUnknown | TObject "key \<Rightarrow> ty option"

text \<open>\<^verbatim>\<open>X[K]\<close>\<close>

fun index :: "ty \<Rightarrow> key \<Rightarrow> ty option" where
  "index (TObject props) k = props k"
| "index TUnknown k = None"

text \<open>\<^verbatim>\<open>keyof X\<close>\<close>

fun keyof :: "ty \<Rightarrow> key set" where
  "keyof (TObject props) = dom props"
| "keyof TUnknown = {}"

text \<open>\<^verbatim>\<open>K & string\<close>, for a union \<open>K\<close> of keys\<close>

definition and_string :: "key set \<Rightarrow> string set" where
  "and_string K = {s. StrKey s \<in> K}"

text \<open>\<^verbatim>\<open>DB["public"]["Tables"]\<close>\<close>

definition Tables :: "ty \<Rightarrow> ty option" where
  "Tables DB = Option.bind (index DB (StrKey ''public'')) (\<lambda>pub. index pub (StrKey ''Tables''))"

text \<open>types.ts, line 59: \<^verbatim>\<open>keyof DB["public"]["Tables"] & string\<close>\<close>

definition TableNames :: "ty \<Rightarrow> string set" where
  "TableNames DB = (case Tables DB of None \<Rightarrow> {} | Some ts \<Rightarrow> and_string (keyof ts))"

text \<open>types.ts, line 66: \<^verbatim>\<open>DB["public"]["Tables"][T]["Row"]\<close>, and lines 73-86 for the
  insert and update types\<close>

definition TableRow :: "string \<Rightarrow> ty \<Rightarrow> ty option" where
  "TableRow T DB =
     Option.bind (Option.bind (Tables DB) (\<lambda>ts. index ts (StrKey T)))
       (\<lambda>entry. index entry (StrKey ''Row''))"

definition TableInsert :: "string \<Rightarrow> ty \<Rightarrow> ty option" where
  "TableInsert T DB =
     Option.bind (Option.bind (Tables DB) (\<lambda>ts. index ts (StrKey T)))
       (\<lambda>entry. index entry (StrKey ''Insert''))"

definition TableUpdate :: "string \<Rightarrow> ty \<Rightarrow> ty option" where
  "TableUpdate T DB =
     Option.bind (Option.bind (Tables DB) (\<lambda>ts. index ts (StrKey T)))
       (\<lambda>entry. index entry (StrKey ''Update''))"

text \<open>An object type given by its named properties, and \<^verbatim>\<open>Record<string, X>\<close>.\<close>

definition object_type :: "(string \<times> ty) list \<Rightarrow> ty" where
  "object_type props = TObject (map_of (map (\<lambda>(s, t). (StrKey s, t)) props))"

definition Record_string :: "ty \<Rightarrow> ty" where
  "Record_string X =
     TObject (\<lambda>k. case k of StrKey s \<Rightarrow> Some X | NumKey n \<Rightarrow> Some X | SymKey s \<Rightarrow> None)"

text \<open>types.ts, lines 34-49: the placeholder schema used when the consumer passes none.\<close>

definition Database :: ty where
  "Database =
     object_type
       [(''public'',
         object_type
           [(''Tables'',
             Record_string
               (object_type
                  [(''Row'', Record_string TUnknown),
                   (''Insert'', Record_string TUnknown),
                   (''Update'', Record_string TUnknown)])),
            (''Views'', Record_string (object_type [(''Row'', Record_string TUnknown)])),
            (''Functions'',
             Record_string
               (object_type [(''Args'', Record_string TUnknown), (''Returns'', TUnknown)])),
            (''Enums'', Record_string TUnknown),
            (''CompositeTypes'', Record_string TUnknown)])]"


section \<open>types.ts: the wrapped client and its query builder\<close>

text \<open>Values the layer passes through without looking at them (\<^verbatim>\<open>unknown\<close>).\<close>

datatype jsval =
  Null | Bool bool | Num int | Str string | Arr "jsval list" | Obj "(string \<times> jsval) list"

text \<open>
  types.ts, lines 100-121: one constructor for each method of \<^verbatim>\<open>QueryBuilder\<close>, with the
  method's arguments. An optional argument that is left out is \<open>None\<close>.
\<close>

datatype call =
    Select "string option"
  | Insert jsval
  | Update jsval
  | Upsert jsval "string option"
  | Delete
  | Match "(string \<times> jsval) list"
  | Eq string jsval
  | Neq string jsval
  | Gt string jsval
  | Gte string jsval
  | Lt string jsval
  | Lte string jsval
  | Like string string
  | Ilike string string
  | Is string "bool option"
  | In string "jsval list"
  | Or string
  | Single
  | Limit int
  | Order string "bool option"

text \<open>What the builder's promise resolves to (types.ts, line 100).\<close>

record response =
  data :: jsval
  error :: jsval

text \<open>
  A \<^verbatim>\<open>QueryBuilder\<close> offers the methods above, each returning a \<^verbatim>\<open>QueryBuilder\<close>, and is a
  promise. Such an object is given by what it resolves to after any further sequence of
  method calls; calling a method moves one call into the past. The layer never looks at
  what the promise resolves to, so that type is left open (\<open>'r\<close>); for a client of the
  interface it is \<^typ>\<open>response\<close>.
\<close>

type_synonym 'r QueryBuilder = "call list \<Rightarrow> 'r"

definition invoke :: "'r QueryBuilder \<Rightarrow> call \<Rightarrow> 'r QueryBuilder" where
  "invoke qb c = (\<lambda>later. qb (c # later))"

definition await :: "'r QueryBuilder \<Rightarrow> 'r" where
  "await qb = qb []"

text \<open>The builder after a sequence of calls, first call first.\<close>

definition chain :: "'r QueryBuilder \<Rightarrow> call list \<Rightarrow> 'r QueryBuilder" where
  "chain qb cs = foldl invoke qb cs"

text \<open>types.ts, lines 134-136: the client is anything with a \<^verbatim>\<open>from\<close> method.\<close>

record 'r SupabaseClientType =
  client_from :: "string \<Rightarrow> 'r QueryBuilder"


section \<open>Entity.ts: the entity factories\<close>

text \<open>
  The factories read two properties of their \<^verbatim>\<open>config\<close> argument, \<^verbatim>\<open>softDelete\<close> and
  \<^verbatim>\<open>schema\<close>; a property that is not set is \<open>None\<close>.
\<close>

record EntityConfig =
  softDelete :: "bool option"
  schema :: "string option"

text \<open>
  The functions the factories import from \<^verbatim>\<open>./core\<close>. That module is not among the
  sources, so the factories take it as a parameter: \<open>'c\<close> is the client, \<open>'m\<close> the
  soft-delete mode, \<open>'p\<close> a parameter object and \<open>'x\<close> what an operation returns. The
  last argument of a maker before the parameter object is the schema name; a call that
  leaves it out passes \<^verbatim>\<open>undefined\<close>, here \<open>None\<close>.
\<close>

record ('c, 'm, 'p, 'x) core =
  getSoftDeleteMode :: "bool option \<Rightarrow> 'm"
  makeGetItem :: "'c \<Rightarrow> string \<Rightarrow> 'm \<Rightarrow> string option \<Rightarrow> 'p \<Rightarrow> 'x"
  makeGetItems :: "'c \<Rightarrow> string \<Rightarrow> 'm \<Rightarrow> string option \<Rightarrow> 'p \<Rightarrow> 'x"
  makeAddItems :: "'c \<Rightarrow> string \<Rightarrow> string option \<Rightarrow> 'p \<Rightarrow> 'x"
  makeUpdateItem :: "'c \<Rightarrow> string \<Rightarrow> string option \<Rightarrow> 'p \<Rightarrow> 'x"
  makeUpdateItems :: "'c \<Rightarrow> string \<Rightarrow> string option \<Rightarrow> 'p \<Rightarrow> 'x"
  makeUpsertItems :: "'c \<Rightarrow> string \<Rightarrow> string option \<Rightarrow> 'p \<Rightarrow> 'x"
  makeDeleteItem :: "'c \<Rightarrow> string \<Rightarrow> string option \<Rightarrow> 'p \<Rightarrow> 'x"
  makeDeleteItems :: "'c \<Rightarrow> string \<Rightarrow> string option \<Rightarrow> 'p \<Rightarrow> 'x"

text \<open>
  The object a factory returns: its properties in the order of the object literal, each
  bound to an operation. Calling a property the object does not have fails (\<open>None\<close>).
\<close>

type_synonym ('p, 'x) IEntity = "(string \<times> ('p \<Rightarrow> 'x)) list"

definition callMethod :: "('p, 'x) IEntity \<Rightarrow> string \<Rightarrow> 'p \<Rightarrow> 'x option" where
  "callMethod obj m p = map_option (\<lambda>operation. operation p) (map_of obj m)"

text \<open>src/entity/Entity.ts, lines 56-95.\<close>

definition Entity ::
  "('c, 'm, 'p, 'x) core \<Rightarrow> 'c \<Rightarrow> string \<Rightarrow> EntityConfig \<Rightarrow> ('p, 'x) IEntity" where
  "Entity core client name config =
     (let softDeleteMode = getSoftDeleteMode core (softDelete config) in
      [(''getItem'', makeGetItem core client name softDeleteMode None),
       (''getItems'', makeGetItems core client name softDeleteMode None),
       (''addItems'', makeAddItems core client name None),
       (''updateItem'', makeUpdateItem core client name None),
       (''updateItems'', makeUpdateItems core client name None)])"

text \<open>The schema-generic factory (the second source file named Entity), lines 70-135.\<close>

definition EntityDB ::
  "('c, 'm, 'p, 'x) core \<Rightarrow> 'c \<Rightarrow> string \<Rightarrow> EntityConfig \<Rightarrow> ('p, 'x) IEntity" where
  "EntityDB core client name config =
     (let softDeleteMode = getSoftDeleteMode core (softDelete config);
          schema = schema config in
      [(''getItem'', makeGetItem core client name softDeleteMode schema),
       (''getItems'', makeGetItems core client name softDeleteMode schema),
       (''addItems'', makeAddItems core client name schema),
       (''updateItem'', makeUpdateItem core client name schema),
       (''updateItems'', makeUpdateItems core client name schema),
       (''upsertItems'', makeUpsertItems core client name schema),
       (''deleteItem'', makeDeleteItem core client name schema),
       (''deleteItems'', makeDeleteItems core client name schema)])"

text \<open>
  A core whose makers return what they were called with: which maker, for which table,
  with which soft-delete setting and which schema name. It makes visible what a factory
  hands to \<^verbatim>\<open>./core\<close>.
\<close>

record seen =
  maker :: string
  table :: string
  mode :: "bool option option"
  schema_name :: "string option"

definition probe :: "(unit, bool option, unit, seen) core" where
  "probe =
     \<lparr>getSoftDeleteMode = (\<lambda>flag. flag),
      makeGetItem = (\<lambda>client name m sch p.
        \<lparr>maker = ''makeGetItem'', table = name, mode = Some m, schema_name = sch\<rparr>),
      makeGetItems = (\<lambda>client name m sch p.
        \<lparr>maker = ''makeGetItems'', table = name, mode = Some m, schema_name = sch\<rparr>),
      makeAddItems = (\<lambda>client name sch p.
        \<lparr>maker = ''makeAddItems'', table = name, mode = None, schema_name = sch\<rparr>),
      makeUpdateItem = (\<lambda>client name sch p.
        \<lparr>maker = ''makeUpdateItem'', table = name, mode = None, schema_name = sch\<rparr>),
      makeUpdateItems = (\<lambda>client name sch p.
        \<lparr>maker = ''makeUpdateItems'', table = name, mode = None, schema_name = sch\<rparr>),
      makeUpsertItems = (\<lambda>client name sch p.
        \<lparr>maker = ''makeUpsertItems'', table = name, mode = None, schema_name = sch\<rparr>),
      makeDeleteItem = (\<lambda>client name sch p.
        \<lparr>maker = ''makeDeleteItem'', table = name, mode = None, schema_name = sch\<rparr>),
      makeDeleteItems = (\<lambda>client name sch p.
        \<lparr>maker = ''makeDeleteItems'', table = name, mode = None, schema_name = sch\<rparr>)\<rparr>"


section \<open>The read operations of ./core\<close>

text \<open>
  Modelled from the spec: the soft-delete mode that \<^verbatim>\<open>getSoftDeleteMode\<close> of \<^verbatim>\<open>./core\<close>
  returns (the module is not among the sources). The glossary calls soft delete
  "a filter mode excluding rows flagged as logically deleted"; a read either excludes
  those rows or includes them.
\<close>

datatype SoftDeleteMode = Include | Exclude

text \<open>
  Modelled from the spec: \<^verbatim>\<open>getSoftDeleteMode\<close> of \<^verbatim>\<open>./core\<close>. "Soft-delete mode is applied
  when configured" (section 8): the mode excludes when the entity's \<^verbatim>\<open>softDelete\<close> is
  \<^verbatim>\<open>true\<close>, and includes when it is \<^verbatim>\<open>false\<close> or not set.
\<close>

definition modelled_getSoftDeleteMode :: "bool option \<Rightarrow> SoftDeleteMode" where
  "modelled_getSoftDeleteMode flag = (if flag = Some True then Exclude else Include)"

text \<open>
  Modelled from the spec: the parameter object of an operation, whose type is declared
  in \<^verbatim>\<open>./types\<close> (not among the sources). Section 6 gives its fields: \<^verbatim>\<open>id\<close>, \<^verbatim>\<open>where\<close>,
  \<^verbatim>\<open>is\<close>, \<^verbatim>\<open>wherein\<close>, \<^verbatim>\<open>order\<close>, \<^verbatim>\<open>items\<close>. A field that is left out is \<open>None\<close> or empty.
  The entries carry what the builder method of the same purpose takes (types.ts, lines
  107, 115, 116 and 120): a column with a value, with \<^verbatim>\<open>boolean | null\<close>, with a list of
  values, and with the \<^verbatim>\<open>ascending\<close> option.
\<close>

record params =
  p_id :: "jsval option"
  p_where :: "(string \<times> jsval) list"
  p_is :: "(string \<times> bool option) list"
  p_wherein :: "(string \<times> jsval list) list"
  p_order :: "(string \<times> bool option) list"
  p_items :: "jsval list"

text \<open>
  Modelled from the spec: what the spec leaves open about the reads of \<^verbatim>\<open>./core\<close>, kept as
  parameters of the model so that nothing proved depends on a guess: how a maker that is
  given a schema name obtains its builder, which calls a read makes before its filters,
  and which builder call is the filter "excluding rows flagged as logically deleted".
\<close>

record 'r conventions =
  viaSchema :: "'r SupabaseClientType \<Rightarrow> string \<Rightarrow> string \<Rightarrow> 'r QueryBuilder"
  reading :: "call list"
  excluding :: call

text \<open>
  Modelled from the spec: where a maker of \<^verbatim>\<open>./core\<close> starts its chain. "Every operation
  ultimately delegates to the underlying client's chained filter builder" (section 1),
  and the client's only method is \<^verbatim>\<open>from\<close> (types.ts, line 135): without a schema name the
  chain starts at \<^verbatim>\<open>client.from(name)\<close>.
\<close>

definition enter ::
  "'r conventions \<Rightarrow> 'r SupabaseClientType \<Rightarrow> string option \<Rightarrow> string \<Rightarrow> 'r QueryBuilder" where
  "enter cv client sch name =
     (case sch of None \<Rightarrow> client_from client name | Some s \<Rightarrow> viaSchema cv client s name)"

text \<open>
  Modelled from the spec: the part of \<^verbatim>\<open>makeGetItem\<close> that handles \<^verbatim>\<open>id\<close>. Entity.ts,
  line 61, documents getItem as retrieving "a single item from the table by ID": an
  equality filter on the column \<^verbatim>\<open>id\<close>.
\<close>

definition applyId :: "jsval option \<Rightarrow> 'r QueryBuilder \<Rightarrow> 'r QueryBuilder" where
  "applyId i qb = (case i of None \<Rightarrow> qb | Some v \<Rightarrow> invoke qb (Eq ''id'' v))"

text \<open>
  Modelled from the spec: the loops of the read makers of \<^verbatim>\<open>./core\<close> over the entries of
  \<^verbatim>\<open>where\<close>, \<^verbatim>\<open>is\<close>, \<^verbatim>\<open>wherein\<close> and \<^verbatim>\<open>order\<close>, "the mapping from declarative parameter
  objects to a sequence of filter-builder calls" (section 1). Each entry becomes one call
  of the builder method for it: \<^verbatim>\<open>eq\<close>, \<^verbatim>\<open>is\<close>, \<^verbatim>\<open>in\<close>, \<^verbatim>\<open>order\<close>.
\<close>

fun applyWhere :: "(string \<times> jsval) list \<Rightarrow> 'r QueryBuilder \<Rightarrow> 'r QueryBuilder" where
  "applyWhere [] qb = qb"
| "applyWhere ((column, v) # conds) qb = applyWhere conds (invoke qb (Eq column v))"

fun applyIs :: "(string \<times> bool option) list \<Rightarrow> 'r QueryBuilder \<Rightarrow> 'r QueryBuilder" where
  "applyIs [] qb = qb"
| "applyIs ((column, b) # conds) qb = applyIs conds (invoke qb (Is column b))"

fun applyWherein :: "(string \<times> jsval list) list \<Rightarrow> 'r QueryBuilder \<Rightarrow> 'r QueryBuilder" where
  "applyWherein [] qb = qb"
| "applyWherein ((column, vs) # conds) qb = applyWherein conds (invoke qb (In column vs))"

fun applyOrder :: "(string \<times> bool option) list \<Rightarrow> 'r QueryBuilder \<Rightarrow> 'r QueryBuilder" where
  "applyOrder [] qb = qb"
| "applyOrder ((column, ascending) # os) qb = applyOrder os (invoke qb (Order column ascending))"

text \<open>
  Modelled from the spec: the step of a read maker of \<^verbatim>\<open>./core\<close> that applies the
  soft-delete mode, "a filter mode excluding rows flagged as logically deleted".
\<close>

definition applySoftDelete ::
  "'r conventions \<Rightarrow> SoftDeleteMode \<Rightarrow> 'r QueryBuilder \<Rightarrow> 'r QueryBuilder" where
  "applySoftDelete cv m qb = (case m of Exclude \<Rightarrow> invoke qb (excluding cv) | Include \<Rightarrow> qb)"

text \<open>
  Modelled from the spec: \<^verbatim>\<open>makeGetItem\<close> of \<^verbatim>\<open>./core\<close>. Its parameter object has \<^verbatim>\<open>id\<close>,
  \<^verbatim>\<open>where\<close> and \<^verbatim>\<open>is\<close> (Entity.ts, line 62). The filters are applied in the order in which the
  spec lists them, the soft-delete mode last.
\<close>

definition modelled_makeGetItem ::
  "'r conventions \<Rightarrow> 'r SupabaseClientType \<Rightarrow> string \<Rightarrow> SoftDeleteMode \<Rightarrow> string option
     \<Rightarrow> params \<Rightarrow> 'r QueryBuilder" where
  "modelled_makeGetItem cv client name m sch p =
     applySoftDelete cv m
       (applyIs (p_is p)
         (applyWhere (p_where p)
           (applyId (p_id p)
             (chain (enter cv client sch name) (reading cv)))))"

text \<open>
  Modelled from the spec: \<^verbatim>\<open>makeGetItems\<close> of \<^verbatim>\<open>./core\<close>. Its parameter object has \<^verbatim>\<open>where\<close>,
  \<^verbatim>\<open>is\<close>, \<^verbatim>\<open>wherein\<close> and \<^verbatim>\<open>order\<close> (Entity.ts, line 69).
\<close>

definition modelled_makeGetItems ::
  "'r conventions \<Rightarrow> 'r SupabaseClientType \<Rightarrow> string \<Rightarrow> SoftDeleteMode \<Rightarrow> string option
     \<Rightarrow> params \<Rightarrow> 'r QueryBuilder" where
  "modelled_makeGetItems cv client name m sch p =
     applySoftDelete cv m
       (applyOrder (p_order p)
         (applyWherein (p_wherein p)
           (applyIs (p_is p)
             (applyWhere (p_where p)
               (chain (enter cv client sch name) (reading cv))))))"

text \<open>
  Modelled from the spec: a core whose soft-delete mode and read makers are the modelled
  ones. The makers of the mutations are not modelled; they are taken from any core.
\<close>

definition modelled_reads ::
  "'r conventions \<Rightarrow> ('r SupabaseClientType, 'm, params, 'r QueryBuilder) core
     \<Rightarrow> ('r SupabaseClientType, SoftDeleteMode, params, 'r QueryBuilder) core" where
  "modelled_reads cv rest =
     \<lparr>getSoftDeleteMode = modelled_getSoftDeleteMode,
      makeGetItem = modelled_makeGetItem cv,
      makeGetItems = modelled_makeGetItems cv,
      makeAddItems = makeAddItems rest,
      makeUpdateItem = makeUpdateItem rest,
      makeUpdateItems = makeUpdateItems rest,
      makeUpsertItems = makeUpsertItems rest,
      makeDeleteItem = makeDeleteItem rest,
      makeDeleteItems = makeDeleteItems rest\<rparr>"


section \<open>Examples\<close>

text \<open>A schema description with one table, as a generated schema file would give it.\<close>

definition tenants_schema :: ty where
  "tenants_schema =
     object_type
       [(''public'',
         object_type
           [(''Tables'',
             object_type
               [(''tenants'',
                 object_type
                   [(''Row'', object_type [(''id'', TUnknown), (''status'', TUnknown)]),
                    (''Insert'', object_type [(''status'', TUnknown)]),
                    (''Update'', object_type [])])])])]"

text \<open>The entity of the example in Entity.ts, line 10, and one with a schema name.\<close>

definition soft_config :: EntityConfig where
  "soft_config = \<lparr>softDelete = Some True, schema = None\<rparr>"

definition analytics_config :: EntityConfig where
  "analytics_config = \<lparr>softDelete = None, schema = Some ''analytics''\<rparr>"

text \<open>A client whose builder resolves to the table and the calls it has received.\<close>

definition recorder :: "(string \<times> call list) SupabaseClientType" where
  "recorder = \<lparr>client_from = (\<lambda>t calls. (t, calls))\<rparr>"

text \<open>
  A core whose operations return the client's builder for the table and call nothing on
  it. It fills the places of the makers that are not modelled where an example needs a
  whole core.
\<close>

definition idle :: "('r SupabaseClientType, unit, params, 'r QueryBuilder) core" where
  "idle =
     \<lparr>getSoftDeleteMode = (\<lambda>flag. ()),
      makeGetItem = (\<lambda>client name m sch p. client_from client name),
      makeGetItems = (\<lambda>client name m sch p. client_from client name),
      makeAddItems = (\<lambda>client name sch p. client_from client name),
      makeUpdateItem = (\<lambda>client name sch p. client_from client name),
      makeUpdateItems = (\<lambda>client name sch p. client_from client name),
      makeUpsertItems = (\<lambda>client name sch p. client_from client name),
      makeDeleteItem = (\<lambda>client name sch p. client_from client name),
      makeDeleteItems = (\<lambda>client name sch p. client_from client name)\<rparr>"

text \<open>One choice of what the spec leaves open, for the recording client.\<close>

definition postgrest :: "(string \<times> call list) conventions" where
  "postgrest =
     \<lparr>viaSchema = (\<lambda>client s name. client_from client (s @ ''.'' @ name)),
      reading = [Select None],
      excluding = Is ''deleted'' None\<rparr>"

text \<open>Two parameter objects: for getItems and for getItem.\<close>

definition active_tenants :: params where
  "active_tenants =
     \<lparr>p_id = None,
      p_where = [(''status'', Str ''active'')],
      p_is = [(''verified'', Some True)],
      p_wherein = [(''plan'', [Str ''pro'', Str ''team''])],
      p_order = [(''name'', Some True)],
      p_items = []\<rparr>"

definition tenant_123 :: params where
  "tenant_123 =
     \<lparr>p_id = Some (Str ''123''),
      p_where = [(''status'', Str ''active'')],
      p_is = [],
      p_wherein = [],
      p_order = [],
      p_items = []\<rparr>"

section \<open>Builders\<close>

lemma invoke_chain: "invoke (chain qb xs) c = chain qb (xs @ [c])"
  by (simp add: chain_def)

lemma chain_apply: "chain qb cs later = qb (cs @ later)"
  by (induction cs arbitrary: qb) (simp_all add: chain_def invoke_def)

lemma await_chain: "await (chain (client_from recorder t) cs) = (t, cs)"
  by (simp add: await_def chain_apply recorder_def)

lemma applyWhere_chain:
  "applyWhere conds (chain qb xs) = chain qb (xs @ map (\<lambda>(c, v). Eq c v) conds)"
  by (induction conds arbitrary: xs) (auto simp: invoke_chain)

lemma applyIs_chain:
  "applyIs conds (chain qb xs) = chain qb (xs @ map (\<lambda>(c, b). Is c b) conds)"
  by (induction conds arbitrary: xs) (auto simp: invoke_chain)

lemma applyWherein_chain:
  "applyWherein conds (chain qb xs) = chain qb (xs @ map (\<lambda>(c, vs). In c vs) conds)"
  by (induction conds arbitrary: xs) (auto simp: invoke_chain)

lemma applyOrder_chain:
  "applyOrder os (chain qb xs) = chain qb (xs @ map (\<lambda>(c, a). Order c a) os)"
  by (induction os arbitrary: xs) (auto simp: invoke_chain)

lemma applyId_chain:
  "applyId i (chain qb xs) =
     chain qb (xs @ (case i of None \<Rightarrow> [] | Some v \<Rightarrow> [Eq ''id'' v]))"
  by (simp add: applyId_def invoke_chain split: option.split)

lemma applySoftDelete_chain:
  "applySoftDelete cv (modelled_getSoftDeleteMode flag) (chain qb xs) =
     chain qb (xs @ (if flag = Some True then [excluding cv] else []))"
  by (simp add: applySoftDelete_def modelled_getSoftDeleteMode_def invoke_chain)

lemmas apply_chain =
  applyWhere_chain applyIs_chain applyWherein_chain applyOrder_chain applyId_chain
  applySoftDelete_chain

lemmas factory_defs = Entity_def EntityDB_def callMethod_def Let_def

lemmas read_defs =
  modelled_reads_def modelled_makeGetItem_def modelled_makeGetItems_def enter_def

lemmas example_defs =
  soft_config_def analytics_config_def postgrest_def active_tenants_def tenant_123_def


section \<open>The factories\<close>

text \<open>
  C2, as amended. The schema-generic factory returns an object with the eight operations
  getItem, getItems, addItems, updateItem, updateItems, upsertItems, deleteItem and
  deleteItems, each the operation that its maker of \<^verbatim>\<open>./core\<close> builds for the client, the
  table name and the schema name of the config. The factory of Entity.ts returns an
  object with the first five only: it has no upsert and no delete operation.
\<close>

theorem factory_operations:
  "map fst (EntityDB core client name config) =
     [''getItem'', ''getItems'', ''addItems'', ''updateItem'', ''updateItems'',
      ''upsertItems'', ''deleteItem'', ''deleteItems'']
   \<and> callMethod (EntityDB core client name config) ''getItem'' p =
       Some (makeGetItem core client name (getSoftDeleteMode core (softDelete config))
         (schema config) p)
   \<and> callMethod (EntityDB core client name config) ''getItems'' p =
       Some (makeGetItems core client name (getSoftDeleteMode core (softDelete config))
         (schema config) p)
   \<and> callMethod (EntityDB core client name config) ''addItems'' p =
       Some (makeAddItems core client name (schema config) p)
   \<and> callMethod (EntityDB core client name config) ''updateItem'' p =
       Some (makeUpdateItem core client name (schema config) p)
   \<and> callMethod (EntityDB core client name config) ''updateItems'' p =
       Some (makeUpdateItems core client name (schema config) p)
   \<and> callMethod (EntityDB core client name config) ''upsertItems'' p =
       Some (makeUpsertItems core client name (schema config) p)
   \<and> callMethod (EntityDB core client name config) ''deleteItem'' p =
       Some (makeDeleteItem core client name (schema config) p)
   \<and> callMethod (EntityDB core client name config) ''deleteItems'' p =
       Some (makeDeleteItems core client name (schema config) p)
   \<and> map fst (Entity core client name config) =
     [''getItem'', ''getItems'', ''addItems'', ''updateItem'', ''updateItems'']
   \<and> callMethod (Entity core client name config) ''getItem'' p =
       Some (makeGetItem core client name (getSoftDeleteMode core (softDelete config)) None p)
   \<and> callMethod (Entity core client name config) ''getItems'' p =
       Some (makeGetItems core client name (getSoftDeleteMode core (softDelete config)) None p)
   \<and> callMethod (Entity core client name config) ''addItems'' p =
       Some (makeAddItems core client name None p)
   \<and> callMethod (Entity core client name config) ''updateItem'' p =
       Some (makeUpdateItem core client name None p)
   \<and> callMethod (Entity core client name config) ''updateItems'' p =
       Some (makeUpdateItems core client name None p)
   \<and> callMethod (Entity core client name config) ''upsertItems'' p = None
   \<and> callMethod (Entity core client name config) ''deleteItem'' p = None
   \<and> callMethod (Entity core client name config) ''deleteItems'' p = None"
  by (simp add: factory_defs)

text \<open>The generic factory's upsert reaches its maker; the factory of Entity.ts has none.\<close>

theorem factory_operations_witness:
  "callMethod (EntityDB probe () ''tenants'' analytics_config) ''upsertItems'' () =
     Some \<lparr>maker = ''makeUpsertItems'', table = ''tenants'', mode = None,
            schema_name = Some ''analytics''\<rparr>
   \<and> callMethod (Entity probe () ''tenants'' analytics_config) ''upsertItems'' () = None
   \<and> callMethod (Entity probe () ''tenants'' analytics_config) ''updateItems'' () =
     Some \<lparr>maker = ''makeUpdateItems'', table = ''tenants'', mode = None, schema_name = None\<rparr>"
  using factory_operations [of probe "()" "''tenants''" analytics_config "()"]
  by (simp add: probe_def analytics_config_def)

text \<open>
  C2 as stated fails for the factory of Entity.ts: the object it returns for the entity
  of its own example has no upsertItems, deleteItem or deleteItems property.
\<close>

theorem Entity_lacks_upsert_and_delete:
  "''upsertItems'' \<notin> fst ` set (Entity probe () ''tenants'' soft_config)
   \<and> ''deleteItem'' \<notin> fst ` set (Entity probe () ''tenants'' soft_config)
   \<and> ''deleteItems'' \<notin> fst ` set (Entity probe () ''tenants'' soft_config)"
  by (simp add: Entity_def Let_def)

text \<open>
  The two factories differ in the schema name alone. For every core, client, table name
  and config whose \<^verbatim>\<open>schema\<close> is not set, the five operations that both provide are the same
  maker applied to the same arguments. When the config names a schema, the generic
  factory hands the name to each maker and the factory of Entity.ts hands it none; a
  maker that tells the two apart then builds different operations, and one that does not
  builds the same. What the makers of \<^verbatim>\<open>./core\<close> do with the name is not decided here.
\<close>

lemma factories_agree_without_schema:
  assumes "schema config = None"
  shows "callMethod (EntityDB core client name config) ''getItem'' p =
           callMethod (Entity core client name config) ''getItem'' p
     \<and> callMethod (EntityDB core client name config) ''getItems'' p =
           callMethod (Entity core client name config) ''getItems'' p
     \<and> callMethod (EntityDB core client name config) ''addItems'' p =
           callMethod (Entity core client name config) ''addItems'' p
     \<and> callMethod (EntityDB core client name config) ''updateItem'' p =
           callMethod (Entity core client name config) ''updateItem'' p
     \<and> callMethod (EntityDB core client name config) ''updateItems'' p =
           callMethod (Entity core client name config) ''updateItems'' p"
  using assms by (simp add: factory_defs)

lemma probe_sees_schema:
  "callMethod (EntityDB probe () ''tenants'' analytics_config) ''getItems'' () =
     Some \<lparr>maker = ''makeGetItems'', table = ''tenants'', mode = Some None,
            schema_name = Some ''analytics''\<rparr>
   \<and> callMethod (Entity probe () ''tenants'' analytics_config) ''getItems'' () =
     Some \<lparr>maker = ''makeGetItems'', table = ''tenants'', mode = Some None,
            schema_name = None\<rparr>"
  by (simp add: factory_defs probe_def analytics_config_def)

lemma idle_ignores_schema:
  "callMethod (EntityDB idle client name config) ''getItems'' p =
     callMethod (Entity idle client name config) ''getItems'' p"
  by (simp add: factory_defs idle_def)

text \<open>
  C10. Setting \<^verbatim>\<open>softDelete\<close> to any value in a config leaves every mutation of the entity
  as it was: addItems, updateItem, updateItems, upsertItems, deleteItem and deleteItems of
  the generic factory, and the three mutations of the factory of Entity.ts. The operation
  is the same function of the parameter object, so its calls and its result are the same.
  This holds for every core, because the factories pass the soft-delete mode to the two
  read makers only.
\<close>

theorem softDelete_leaves_mutations:
  "callMethod (EntityDB core client name (config\<lparr>softDelete := flag\<rparr>)) ''addItems'' p =
     callMethod (EntityDB core client name config) ''addItems'' p
   \<and> callMethod (EntityDB core client name (config\<lparr>softDelete := flag\<rparr>)) ''updateItem'' p =
     callMethod (EntityDB core client name config) ''updateItem'' p
   \<and> callMethod (EntityDB core client name (config\<lparr>softDelete := flag\<rparr>)) ''updateItems'' p =
     callMethod (EntityDB core client name config) ''updateItems'' p
   \<and> callMethod (EntityDB core client name (config\<lparr>softDelete := flag\<rparr>)) ''upsertItems'' p =
     callMethod (EntityDB core client name config) ''upsertItems'' p
   \<and> callMethod (EntityDB core client name (config\<lparr>softDelete := flag\<rparr>)) ''deleteItem'' p =
     callMethod (EntityDB core client name config) ''deleteItem'' p
   \<and> callMethod (EntityDB core client name (config\<lparr>softDelete := flag\<rparr>)) ''deleteItems'' p =
     callMethod (EntityDB core client name config) ''deleteItems'' p
   \<and> callMethod (Entity core client name (config\<lparr>softDelete := flag\<rparr>)) ''addItems'' p =
     callMethod (Entity core client name config) ''addItems'' p
   \<and> callMethod (Entity core client name (config\<lparr>softDelete := flag\<rparr>)) ''updateItem'' p =
     callMethod (Entity core client name config) ''updateItem'' p
   \<and> callMethod (Entity core client name (config\<lparr>softDelete := flag\<rparr>)) ''updateItems'' p =
     callMethod (Entity core client name config) ''updateItems'' p"
  by (simp add: factory_defs)

text \<open>
  Switching soft delete on leaves deleteItems as it was, with the schema name it had,
  while getItems is handed another mode.
\<close>

theorem softDelete_leaves_mutations_witness:
  "callMethod (EntityDB probe () ''tenants'' (analytics_config\<lparr>softDelete := Some True\<rparr>))
       ''deleteItems'' () =
     callMethod (EntityDB probe () ''tenants'' analytics_config) ''deleteItems'' ()
   \<and> callMethod (EntityDB probe () ''tenants'' analytics_config) ''deleteItems'' () =
     Some \<lparr>maker = ''makeDeleteItems'', table = ''tenants'', mode = None,
            schema_name = Some ''analytics''\<rparr>
   \<and> callMethod (EntityDB probe () ''tenants'' (analytics_config\<lparr>softDelete := Some True\<rparr>))
       ''getItems'' () \<noteq>
     callMethod (EntityDB probe () ''tenants'' analytics_config) ''getItems'' ()"
  using softDelete_leaves_mutations
    [where core = probe and client = "()" and name = "''tenants''"
       and config = analytics_config and flag = "Some True" and p = "()"]
  by (simp add: factory_defs probe_def analytics_config_def)

text \<open>
  Two frame properties of the factories. The factory of Entity.ts never reads
  \<^verbatim>\<open>config.schema\<close>. The generic factory reads its config through
  \<^verbatim>\<open>getSoftDeleteMode(config.softDelete)\<close> and \<^verbatim>\<open>config.schema\<close> alone.
\<close>

lemma Entity_ignores_schema:
  "Entity core client name (config\<lparr>schema := s\<rparr>) = Entity core client name config"
  by (simp add: Entity_def)

lemma EntityDB_reads_mode_and_schema:
  assumes "getSoftDeleteMode core (softDelete c1) = getSoftDeleteMode core (softDelete c2)"
    and "schema c1 = schema c2"
  shows "EntityDB core client name c1 = EntityDB core client name c2"
  using assms by (simp add: EntityDB_def)

section \<open>The read operations\<close>

text \<open>
  C1. For every parameter object, client, table name and config, the read operations of
  an entity made by the factory of Entity.ts advance the builder \<^verbatim>\<open>client.from(name)\<close> by
  calls that follow the parameter object. getItems: after the opening calls of a read, one
  \<^verbatim>\<open>eq\<close> for each entry of \<^verbatim>\<open>where\<close> with its column and value, one \<^verbatim>\<open>is\<close> for each entry of
  \<^verbatim>\<open>is\<close>, one \<^verbatim>\<open>in\<close> for each entry of \<^verbatim>\<open>wherein\<close>, one \<^verbatim>\<open>order\<close> for each entry of \<^verbatim>\<open>order\<close>
  with its direction, and the soft-delete filter exactly when the config sets
  \<^verbatim>\<open>softDelete\<close> to true. getItem: the same for \<^verbatim>\<open>id\<close>, \<^verbatim>\<open>where\<close> and \<^verbatim>\<open>is\<close>. The read makers
  are the ones modelled from the spec.
\<close>

theorem read_calls_follow_params:
  "callMethod (Entity (modelled_reads cv rest) client name config) ''getItems'' p =
     Some (chain (client_from client name)
       (reading cv
        @ map (\<lambda>(column, v). Eq column v) (p_where p)
        @ map (\<lambda>(column, b). Is column b) (p_is p)
        @ map (\<lambda>(column, vs). In column vs) (p_wherein p)
        @ map (\<lambda>(column, ascending). Order column ascending) (p_order p)
        @ (if softDelete config = Some True then [excluding cv] else [])))
   \<and> callMethod (Entity (modelled_reads cv rest) client name config) ''getItem'' p =
     Some (chain (client_from client name)
       (reading cv
        @ (case p_id p of None \<Rightarrow> [] | Some v \<Rightarrow> [Eq ''id'' v])
        @ map (\<lambda>(column, v). Eq column v) (p_where p)
        @ map (\<lambda>(column, b). Is column b) (p_is p)
        @ (if softDelete config = Some True then [excluding cv] else [])))"
  by (simp add: factory_defs read_defs apply_chain)

text \<open>
  The calls a recording client receives from the entity of the example in Entity.ts:
  \<^verbatim>\<open>getItems({ where: { status: "active" }, is: { verified: true }, wherein: { plan:
  ["pro", "team"] }, order: ["name", { ascending: true }] })\<close> and
  \<^verbatim>\<open>getItem({ id: "123", where: { status: "active" } })\<close>.
\<close>

theorem read_calls_follow_params_witness:
  "map_option await
     (callMethod (Entity (modelled_reads postgrest idle) recorder ''tenants'' soft_config)
        ''getItems'' active_tenants) =
     Some (''tenants'',
       [Select None, Eq ''status'' (Str ''active''), Is ''verified'' (Some True),
        In ''plan'' [Str ''pro'', Str ''team''], Order ''name'' (Some True),
        Is ''deleted'' None])
   \<and> map_option await
     (callMethod (Entity (modelled_reads postgrest idle) recorder ''tenants'' soft_config)
        ''getItem'' tenant_123) =
     Some (''tenants'',
       [Select None, Eq ''id'' (Str ''123''), Eq ''status'' (Str ''active''),
        Is ''deleted'' None])"
  using read_calls_follow_params
    [where cv = postgrest and rest = idle and client = recorder and name = "''tenants''"
       and config = soft_config and p = active_tenants]
    read_calls_follow_params
    [where cv = postgrest and rest = idle and client = recorder and name = "''tenants''"
       and config = soft_config and p = tenant_123]
  by (simp add: await_chain example_defs)

text \<open>
  C3. There are two mappings from parameter objects to filter calls, one for getItem and
  one for getItems, that depend neither on the config nor on the client, such that for
  both factories every read makes the opening calls of a read, then the calls of its
  parameter object, and then, when the config sets \<^verbatim>\<open>softDelete\<close> to true, the one filter
  that excludes the rows flagged as deleted; when \<^verbatim>\<open>softDelete\<close> is false or not set, it
  makes no further call. The read makers are the ones modelled from the spec.
\<close>

theorem soft_delete_filter_when_configured:
  "\<exists>one many.
     \<forall>(cv :: 'r conventions)
        (rest :: ('r SupabaseClientType, 'm, params, 'r QueryBuilder) core)
        client name config p.
       callMethod (Entity (modelled_reads cv rest) client name config) ''getItem'' p =
         Some (chain (client_from client name)
           (reading cv @ one p
            @ (if softDelete config = Some True then [excluding cv] else [])))
     \<and> callMethod (Entity (modelled_reads cv rest) client name config) ''getItems'' p =
         Some (chain (client_from client name)
           (reading cv @ many p
            @ (if softDelete config = Some True then [excluding cv] else [])))
     \<and> callMethod (EntityDB (modelled_reads cv rest) client name config) ''getItem'' p =
         Some (chain (enter cv client (schema config) name)
           (reading cv @ one p
            @ (if softDelete config = Some True then [excluding cv] else [])))
     \<and> callMethod (EntityDB (modelled_reads cv rest) client name config) ''getItems'' p =
         Some (chain (enter cv client (schema config) name)
           (reading cv @ many p
            @ (if softDelete config = Some True then [excluding cv] else [])))"
proof -
  let ?one = "\<lambda>p. (case p_id p of None \<Rightarrow> [] | Some v \<Rightarrow> [Eq ''id'' v])
      @ map (\<lambda>(column, v). Eq column v) (p_where p)
      @ map (\<lambda>(column, b). Is column b) (p_is p)"
  let ?many = "\<lambda>p. map (\<lambda>(column, v). Eq column v) (p_where p)
      @ map (\<lambda>(column, b). Is column b) (p_is p)
      @ map (\<lambda>(column, vs). In column vs) (p_wherein p)
      @ map (\<lambda>(column, ascending). Order column ascending) (p_order p)"
  show ?thesis
    by (intro exI [of _ ?one] exI [of _ ?many])
      (simp add: factory_defs read_defs apply_chain)
qed

text \<open>
  With soft delete on, a recording client receives from getItem the calls it receives
  with soft delete off or not set, and then the excluding filter.
\<close>

theorem soft_delete_filter_when_configured_witness:
  "\<exists>calls.
     map_option await
       (callMethod (EntityDB (modelled_reads postgrest idle) recorder ''tenants''
          \<lparr>softDelete = Some True, schema = None\<rparr>) ''getItem'' tenant_123) =
       Some (''tenants'', Select None # calls @ [Is ''deleted'' None])
   \<and> map_option await
       (callMethod (EntityDB (modelled_reads postgrest idle) recorder ''tenants''
          \<lparr>softDelete = Some False, schema = None\<rparr>) ''getItem'' tenant_123) =
       Some (''tenants'', Select None # calls)
   \<and> map_option await
       (callMethod (EntityDB (modelled_reads postgrest idle) recorder ''tenants''
          \<lparr>softDelete = None, schema = None\<rparr>) ''getItem'' tenant_123) =
       Some (''tenants'', Select None # calls)"
proof -
  have "\<exists>one :: params \<Rightarrow> call list.
      \<forall>config. callMethod
          (EntityDB (modelled_reads postgrest idle) recorder ''tenants'' config)
          ''getItem'' tenant_123 =
        Some (chain (enter postgrest recorder (schema config) ''tenants'')
          (reading postgrest @ one tenant_123
           @ (if softDelete config = Some True then [excluding postgrest] else [])))"
    using soft_delete_filter_when_configured [where ?'r = "string \<times> call list" and ?'m = unit]
    by blast
  then obtain one :: "params \<Rightarrow> call list" where
    reads: "\<And>config. callMethod
        (EntityDB (modelled_reads postgrest idle) recorder ''tenants'' config)
        ''getItem'' tenant_123 =
      Some (chain (enter postgrest recorder (schema config) ''tenants'')
        (reading postgrest @ one tenant_123
         @ (if softDelete config = Some True then [excluding postgrest] else [])))"
    by blast
  show ?thesis
    unfolding reads
    by (rule exI [of _ "one tenant_123"]) (simp add: enter_def await_chain postgrest_def)
qed


section \<open>The table types\<close>

text \<open>
  C8. Let a schema description have the member \<^verbatim>\<open>public\<close>, and that member the record
  \<^verbatim>\<open>Tables\<close>. Then the table names are exactly the strings that are keys of the record,
  and for every string key \<open>T\<close> of the record, with its entry, \<open>T\<close> is a table name and the
  row, insert and update types of \<open>T\<close> are the entry's \<^verbatim>\<open>Row\<close>, \<^verbatim>\<open>Insert\<close> and \<^verbatim>\<open>Update\<close>
  members as the schema description gives them.
\<close>

theorem table_types_are_supplied:
  assumes "index DB (StrKey ''public'') = Some pub"
    and "index pub (StrKey ''Tables'') = Some ts"
    and "index ts (StrKey T) = Some entry"
  shows "TableNames DB = {s. \<exists>e. index ts (StrKey s) = Some e}
      \<and> T \<in> TableNames DB
      \<and> TableRow T DB = index entry (StrKey ''Row'')
      \<and> TableInsert T DB = index entry (StrKey ''Insert'')
      \<and> TableUpdate T DB = index entry (StrKey ''Update'')"
proof -
  have tables: "Tables DB = Some ts"
    using assms(1,2) by (simp add: Tables_def)
  have keys: "and_string (keyof ts) = {s. \<exists>e. index ts (StrKey s) = Some e}"
    by (cases ts) (auto simp: and_string_def)
  have names: "TableNames DB = {s. \<exists>e. index ts (StrKey s) = Some e}"
    using tables keys by (simp add: TableNames_def)
  have "T \<in> TableNames DB"
    using names assms(3) by blast
  then show ?thesis
    using names tables assms(3) by (simp add: TableRow_def TableInsert_def TableUpdate_def)
qed

text \<open>
  The schema with the one table \<^verbatim>\<open>tenants\<close>: its only table name is \<^verbatim>\<open>tenants\<close>, whose three
  types are the three shapes the schema gives.
\<close>

theorem table_types_are_supplied_witness:
  "TableNames tenants_schema = {''tenants''}
   \<and> TableRow ''tenants'' tenants_schema =
       Some (object_type [(''id'', TUnknown), (''status'', TUnknown)])
   \<and> TableInsert ''tenants'' tenants_schema = Some (object_type [(''status'', TUnknown)])
   \<and> TableUpdate ''tenants'' tenants_schema = Some (object_type [])"
proof -
  let ?entry = "object_type
      [(''Row'', object_type [(''id'', TUnknown), (''status'', TUnknown)]),
       (''Insert'', object_type [(''status'', TUnknown)]),
       (''Update'', object_type [])]"
  let ?ts = "object_type [(''tenants'', ?entry)]"
  let ?pub = "object_type [(''Tables'', ?ts)]"
  have pub: "index tenants_schema (StrKey ''public'') = Some ?pub"
    by (simp add: tenants_schema_def object_type_def)
  have ts: "index ?pub (StrKey ''Tables'') = Some ?ts"
    by (simp add: object_type_def)
  have entry: "index ?ts (StrKey ''tenants'') = Some ?entry"
    by (simp add: object_type_def)
  have keys: "{s. \<exists>e. index ?ts (StrKey s) = Some e} = {''tenants''}"
    by (auto simp: object_type_def split: if_splits)
  have members:
    "index ?entry (StrKey ''Row'') = Some (object_type [(''id'', TUnknown), (''status'', TUnknown)])"
    "index ?entry (StrKey ''Insert'') = Some (object_type [(''status'', TUnknown)])"
    "index ?entry (StrKey ''Update'') = Some (object_type [])"
    by (simp_all add: object_type_def)
  show ?thesis
    using table_types_are_supplied [OF pub ts entry] keys members by simp
qed

text \<open>
  With the placeholder schema \<^verbatim>\<open>Database\<close> every string is a table name, and the row,
  insert and update types of every table are \<^verbatim>\<open>Record<string, unknown>\<close>.
\<close>

lemma placeholder_Database_tables:
  "TableNames Database = UNIV
   \<and> TableRow T Database = Some (Record_string TUnknown)
   \<and> TableInsert T Database = Some (Record_string TUnknown)
   \<and> TableUpdate T Database = Some (Record_string TUnknown)"
  by (auto simp: TableNames_def TableRow_def TableInsert_def TableUpdate_def Tables_def
      Database_def object_type_def Record_string_def and_string_def)

end
